theory Spec2Isabelle
  imports Complex_Main
begin
section \<open>Errors and the random source\<close>

text \<open>Every exception the modelled code can raise is a value of this type.\<close>

datatype error =
    RuntimeError string
  | ValueError
  | IndexError
  | KeyError

text \<open>
  \<open>random.Random\<close> belongs to the Python standard library, not to the program. It is
  taken as a parameter: a state type \<open>'r\<close> with its two primitive draws, \<open>random()\<close>
  (a float in \<open>[0, 1)\<close>, as the rational it denotes) and \<open>_randbelow(n)\<close> (an integer
  below \<open>n\<close>), and the
  constructor \<open>Random(seed)\<close>. The methods the program calls are derived from the draws
  as the library derives them.
\<close>

record 'r rng_ops =
  rng_seed :: "int \<Rightarrow> 'r"
  rng_random :: "'r \<Rightarrow> rat \<times> 'r"
  rng_randbelow :: "int \<Rightarrow> 'r \<Rightarrow> int \<times> 'r"

definition randrange :: "'r rng_ops \<Rightarrow> int \<Rightarrow> 'r \<Rightarrow> error + (int \<times> 'r)" where
  "randrange ops n r =
     (if n \<le> 0 then Inl ValueError
      else (let (v, r') = rng_randbelow ops n r in Inr (v, r')))"

definition randint :: "'r rng_ops \<Rightarrow> int \<Rightarrow> int \<Rightarrow> 'r \<Rightarrow> error + (int \<times> 'r)" where
  "randint ops a b r =
     (case randrange ops (b + 1 - a) r of
        Inl e \<Rightarrow> Inl e
      | Inr (v, r') \<Rightarrow> Inr (a + v, r'))"

text \<open>
  \<open>shuffle\<close>: for \<open>i\<close> from \<open>len - 1\<close> down to 1, draw \<open>j\<close> below \<open>i + 1\<close> and swap
  the entries at \<open>i\<close> and \<open>j\<close>.
\<close>

fun shuffle_from :: "'r rng_ops \<Rightarrow> nat \<Rightarrow> 'a list \<Rightarrow> 'r \<Rightarrow> 'a list \<times> 'r" where
  "shuffle_from ops 0 xs r = (xs, r)"
| "shuffle_from ops (Suc k) xs r =
     (let (j, r') = rng_randbelow ops (int (Suc k) + 1) r
      in shuffle_from ops k ((xs[Suc k := xs ! nat j])[nat j := xs ! Suc k]) r')"

definition shuffle :: "'r rng_ops \<Rightarrow> 'a list \<Rightarrow> 'r \<Rightarrow> 'a list \<times> 'r" where
  "shuffle ops xs r = shuffle_from ops (length xs - 1) xs r"

section \<open>Component records (components.py)\<close>

text \<open>
  Python integers are unbounded and are modelled as \<open>int\<close>. The resistance table is a
  dictionary from element tags to floats; a stored float is the rational number it
  denotes.
\<close>

record Stats =
  max_hp :: int
  hp :: int
  max_mp :: int
  mp :: int
  atk :: int
  defense :: int
  evasion :: int
  speed :: int
  xp :: int
  level :: int
  resistances :: "string \<rightharpoonup> rat"

record Item =
  name :: string
  slot :: "string option"
  stackable :: bool
  quantity :: int
  identified :: bool
  cursed :: bool
  durability :: "int option"
  power :: int
  element :: string
  description :: string

record Inventory =
  width :: int
  height :: int
  items :: "Item list"

definition capacity :: "Inventory \<Rightarrow> int" where
  "capacity iv = width iv * height iv"

text \<open>
  The loop of \<open>Inventory.add\<close> over the stored entries: the first entry whose name and
  identified flag equal the incoming item's gets the incoming quantity added and the
  search stops; \<open>None\<close> means that the loop ran to its end without a match.
\<close>

abbreviation same_stack :: "Item \<Rightarrow> Item \<Rightarrow> bool" where
  "same_stack item stored \<equiv> name stored = name item \<and> identified stored = identified item"

fun merge_into :: "Item list \<Rightarrow> Item \<Rightarrow> Item list option" where
  "merge_into [] item = None"
| "merge_into (stored # rest) item =
     (if same_stack item stored
      then Some (stored\<lparr>quantity := quantity stored + quantity item\<rparr> # rest)
      else map_option ((#) stored) (merge_into rest item))"

definition inv_add :: "Inventory \<Rightarrow> Item \<Rightarrow> bool \<times> Inventory" where
  "inv_add iv item =
     (case (if stackable item then merge_into (items iv) item else None) of
        Some its \<Rightarrow> (True, iv\<lparr>items := its\<rparr>)
      | None \<Rightarrow>
          if int (length (items iv)) \<ge> capacity iv then (False, iv)
          else (True, iv\<lparr>items := items iv @ [item]\<rparr>))"

record StatusEffect =
  se_name :: string
  duration :: int
  potency :: int
  se_element :: string

record StatusTracker =
  statuses :: "StatusEffect list"

text \<open>
  The loop of \<open>StatusTracker.add\<close>: the first entry with the effect's name is refreshed
  and the method returns; \<open>None\<close> means no entry carried that name.
\<close>

fun refresh_existing :: "StatusEffect list \<Rightarrow> StatusEffect \<Rightarrow> StatusEffect list option" where
  "refresh_existing [] effect = None"
| "refresh_existing (existing # rest) effect =
     (if se_name existing = se_name effect
      then Some (existing\<lparr>duration := max (duration existing) (duration effect),
                           potency := max (potency existing) (potency effect)\<rparr> # rest)
      else map_option ((#) existing) (refresh_existing rest effect))"

definition tracker_add :: "StatusTracker \<Rightarrow> StatusEffect \<Rightarrow> StatusTracker" where
  "tracker_add t effect =
     (case refresh_existing (statuses t) effect of
        Some sts \<Rightarrow> t\<lparr>statuses := sts\<rparr>
      | None \<Rightarrow> t\<lparr>statuses := statuses t @ [effect]\<rparr>)"

section \<open>Progression (combat.py)\<close>

definition gain_xp :: "Stats \<Rightarrow> int \<Rightarrow> bool \<times> Stats" where
  "gain_xp stats reward =
     (let s1 = stats\<lparr>xp := xp stats + reward\<rparr>;
          threshold = 10 + level s1 * 5
      in if xp s1 \<ge> threshold then
           (let s2 = s1\<lparr>level := level s1 + 1\<rparr>;
                s3 = s2\<lparr>max_hp := max_hp s2 + 4\<rparr>;
                s4 = s3\<lparr>max_mp := max_mp s3 + 2\<rparr>;
                s5 = s4\<lparr>atk := atk s4 + 1\<rparr>;
                s6 = s5\<lparr>defense := defense s5 + 1\<rparr>;
                s7 = s6\<lparr>hp := max_hp s6\<rparr>;
                s8 = s7\<lparr>mp := max_mp s7\<rparr>;
                s9 = s8\<lparr>xp := xp s8 - threshold\<rparr>
            in (True, s9))
         else (False, s1))"

section \<open>Grid utilities (utils.py)\<close>

text \<open>
  A cell is the pair \<open>(x, y)\<close>. A two-dimensional array is the list of its rows, so that
  the entry \<open>a[y, x]\<close> is \<open>a ! y ! x\<close>. The reads and writes of the map generator are
  within the array by the ranges of the loops that make them.
\<close>

type_synonym cell = "int \<times> int"

type_synonym 'a grid = "'a list list"

definition grid_at :: "'a grid \<Rightarrow> int \<Rightarrow> int \<Rightarrow> 'a" where
  "grid_at g y x = g ! nat y ! nat x"

definition grid_set :: "'a grid \<Rightarrow> int \<Rightarrow> int \<Rightarrow> 'a \<Rightarrow> 'a grid" where
  "grid_set g y x v = g[nat y := (g ! nat y)[nat x := v]]"

definition shape0 :: "'a grid \<Rightarrow> int" where
  "shape0 g = int (length g)"

definition shape1 :: "'a grid \<Rightarrow> int" where
  "shape1 g = (case g of [] \<Rightarrow> 0 | row # _ \<Rightarrow> int (length row))"

text \<open>\<open>np.argwhere\<close>: the indices \<open>(y, x)\<close> of the entries satisfying \<open>P\<close>, row by row.\<close>

definition argwhere :: "('a \<Rightarrow> bool) \<Rightarrow> 'a grid \<Rightarrow> (int \<times> int) list" where
  "argwhere P g =
     concat (map (\<lambda>(j, row). map (\<lambda>(i, t). (int j, int i))
                                (filter (\<lambda>(i, t). P t) (enumerate 0 row)))
                 (enumerate 0 g))"

record Rect =
  rx :: int
  ry :: int
  rw :: int
  rh :: int

definition center :: "Rect \<Rightarrow> cell" where
  "center r = (rx r + rw r div 2, ry r + rh r div 2)"

definition intersect :: "Rect \<Rightarrow> Rect \<Rightarrow> bool" where
  "intersect self other =
     (\<not> (rx other + rw other \<le> rx self
         \<or> rx other \<ge> rx self + rw self
         \<or> ry other + rh other \<le> ry self
         \<or> ry other \<ge> ry self + rh self))"

definition manhattan :: "cell \<Rightarrow> cell \<Rightarrow> int" where
  "manhattan a b = \<bar>fst a - fst b\<bar> + \<bar>snd a - snd b\<bar>"

definition cardinal_neighbours :: "int \<Rightarrow> int \<Rightarrow> cell list" where
  "cardinal_neighbours x y = [(x + 1, y), (x - 1, y), (x, y + 1), (x, y - 1)]"

text \<open>
  \<open>flood_fill\<close>: breadth-first search over the walkable cells. The visited set is kept
  as the list of its members in insertion order; \<open>visit\<close> is the body of the inner loop
  for one neighbour, \<open>flood_loop\<close> the outer \<open>while q\<close> loop.
\<close>

definition visit ::
  "bool grid \<Rightarrow> cell set \<Rightarrow> cell \<Rightarrow> cell list \<times> cell list \<Rightarrow> cell list \<times> cell list" where
  "visit walkable blocked_set n vq =
     (case vq of (visited, q) \<Rightarrow>
        if \<not> (0 \<le> fst n \<and> fst n < shape1 walkable \<and> 0 \<le> snd n \<and> snd n < shape0 walkable)
        then (visited, q)
        else if n \<in> set visited \<or> n \<in> blocked_set then (visited, q)
        else if \<not> grid_at walkable (snd n) (fst n) then (visited, q)
        else (visited @ [n], q @ [n]))"

function flood_loop ::
  "bool grid \<Rightarrow> cell set \<Rightarrow> cell list \<Rightarrow> cell list \<Rightarrow> cell list" where
  "flood_loop walkable blocked_set visited [] = visited"
| "flood_loop walkable blocked_set visited ((x, y) # q) =
     (case fold (visit walkable blocked_set) (cardinal_neighbours x y) (visited, q) of
        (visited', q') \<Rightarrow> flood_loop walkable blocked_set visited' q')"
  by pat_completeness auto

text \<open>
  Termination of the search: every step removes one cell from the queue and every cell
  it appends leaves the unvisited cells of the array.
\<close>

definition flood_measure :: "bool grid \<Rightarrow> cell list \<Rightarrow> cell list \<Rightarrow> nat" where
  "flood_measure walkable visited q =
     2 * card (({0..<shape1 walkable} \<times> {0..<shape0 walkable}) - set visited) + length q"

lemma visit_measure:
  "visit walkable blocked_set n (visited, q) = (visited', q') \<Longrightarrow>
   flood_measure walkable visited' q' \<le> flood_measure walkable visited q"
proof -
  assume v: "visit walkable blocked_set n (visited, q) = (visited', q')"
  let ?U = "{0..<shape1 walkable} \<times> {0..<shape0 walkable}"
  show ?thesis
  proof (cases "(visited', q') = (visited, q)")
    case True
    then show ?thesis by simp
  next
    case False
    with v have new: "visited' = visited @ [n]" "q' = q @ [n]" "n \<in> ?U" "n \<notin> set visited"
      by (auto simp: visit_def mem_Times_iff split: if_splits)
    have fin: "finite (?U - set visited)" by simp
    have "?U - set visited' = (?U - set visited) - {n}"
      using new by auto
    moreover have "n \<in> ?U - set visited"
      using new by simp
    ultimately have "card (?U - set visited') < card (?U - set visited)"
      using fin by (metis card_Diff1_less)
    then show ?thesis
      using new by (simp add: flood_measure_def)
  qed
qed

lemma fold_visit_measure:
  "fold (visit walkable blocked_set) ns (visited, q) = (visited', q') \<Longrightarrow>
   flood_measure walkable visited' q' \<le> flood_measure walkable visited q"
proof (induction ns arbitrary: visited q)
  case Nil
  then show ?case by simp
next
  case (Cons n ns)
  obtain v1 q1 where s: "visit walkable blocked_set n (visited, q) = (v1, q1)"
    by (cases "visit walkable blocked_set n (visited, q)")
  with Cons.prems have "fold (visit walkable blocked_set) ns (v1, q1) = (visited', q')"
    by simp
  then have "flood_measure walkable visited' q' \<le> flood_measure walkable v1 q1"
    by (rule Cons.IH)
  also have "\<dots> \<le> flood_measure walkable visited q"
    using s by (rule visit_measure)
  finally show ?case .
qed

termination flood_loop
proof (relation "measure (\<lambda>(walkable, blocked_set, visited, q). flood_measure walkable visited q)")
  show "wf (measure (\<lambda>(walkable, blocked_set, visited, q). flood_measure walkable visited q))"
    by simp
next
  fix walkable :: "bool grid" and blocked_set :: "cell set" and visited q :: "cell list"
    and x y :: int and visited' q' :: "cell list"
  assume "(visited', q') = fold (visit walkable blocked_set) (cardinal_neighbours x y) (visited, q)"
  then have "fold (visit walkable blocked_set) (cardinal_neighbours x y) (visited, q) = (visited', q')"
    by simp
  then have "flood_measure walkable visited' q' \<le> flood_measure walkable visited q"
    by (rule fold_visit_measure)
  then show "((walkable, blocked_set, visited', q'), walkable, blocked_set, visited, (x, y) # q)
       \<in> measure (\<lambda>(walkable, blocked_set, visited, q). flood_measure walkable visited q)"
    by (simp add: flood_measure_def)
qed

definition flood_fill :: "bool grid \<Rightarrow> cell \<Rightarrow> cell list \<Rightarrow> cell list" where
  "flood_fill walkable start blocked =
     (let blocked_set = set blocked
      in if \<not> (0 \<le> fst start \<and> fst start < shape1 walkable
                \<and> 0 \<le> snd start \<and> snd start < shape0 walkable) then []
         else if \<not> grid_at walkable (snd start) (fst start) \<or> start \<in> blocked_set then []
         else flood_loop walkable blocked_set [start] [start])"

section \<open>Map data and the generator (mapgen.py)\<close>

datatype Tile =
  WALL | FLOOR | DOOR | LOCKED_DOOR | STAIRS_UP | STAIRS_DOWN | ACID | LAVA | TRAP

text \<open>
  \<open>MapData\<close>; \<open>width\<close> and \<open>height\<close> carry the prefix \<open>md_\<close> (the inventory has fields of
  the same names). \<open>door_keys\<close> is a dictionary, kept as the list of its items in
  insertion order; \<open>dict_set\<close> is the assignment \<open>d[k] = v\<close> and \<open>map_of\<close> the lookup.
\<close>

definition dict_set :: "('k \<times> 'v) list \<Rightarrow> 'k \<Rightarrow> 'v \<Rightarrow> ('k \<times> 'v) list" where
  "dict_set d k v =
     (if k \<in> fst ` set d then map (\<lambda>(k', v'). if k' = k then (k, v) else (k', v')) d
      else d @ [(k, v)])"

record MapData =
  md_width :: int
  md_height :: int
  tiles :: "Tile grid"
  start :: cell
  stairs_up :: cell
  stairs_down :: cell
  locked_doors :: "cell list"
  key_positions :: "cell list"
  door_keys :: "(cell \<times> cell) list"
  hazards :: "cell list"
  trap_hints :: "cell list"

definition in_bounds :: "MapData \<Rightarrow> int \<Rightarrow> int \<Rightarrow> bool" where
  "in_bounds md x y = (0 \<le> x \<and> x < md_width md \<and> 0 \<le> y \<and> y < md_height md)"

definition tile_at :: "MapData \<Rightarrow> int \<Rightarrow> int \<Rightarrow> Tile" where
  "tile_at md x y = grid_at (tiles md) y x"

definition walkable :: "MapData \<Rightarrow> bool grid" where
  "walkable md =
     map (map (\<lambda>t. t \<in> set [FLOOR, DOOR, LOCKED_DOOR, STAIRS_UP, STAIRS_DOWN, ACID, LAVA, TRAP]))
         (tiles md)"

definition reachable :: "MapData \<Rightarrow> cell \<Rightarrow> cell list \<Rightarrow> cell list" where
  "reachable md s blocked = flood_fill (walkable md) s blocked"

text \<open>
  \<open>MapGenerator\<close>, with the fields \<open>width\<close>, \<open>height\<close>, \<open>floor\<close> and \<open>_start_position\<close>
  under the prefix \<open>gen_\<close>.
\<close>

record 'r MapGenerator =
  gen_width :: int
  gen_height :: int
  gen_floor :: int
  rng :: 'r
  gen_start_position :: "cell option"

definition carve_h :: "Tile grid \<Rightarrow> int \<Rightarrow> int \<Rightarrow> int \<Rightarrow> Tile grid" where
  "carve_h t x1 x2 y = fold (\<lambda>x g. grid_set g y x FLOOR) [min x1 x2..max x1 x2] t"

definition carve_v :: "Tile grid \<Rightarrow> int \<Rightarrow> int \<Rightarrow> int \<Rightarrow> Tile grid" where
  "carve_v t y1 y2 x = fold (\<lambda>y g. grid_set g y x FLOOR) [min y1 y2..max y1 y2] t"

text \<open>The slice assignment \<open>tiles[y : y + h, x : x + w] = FLOOR\<close> for a room.\<close>

definition fill_room :: "Tile grid \<Rightarrow> Rect \<Rightarrow> Tile grid" where
  "fill_room t room =
     map (\<lambda>(j, row).
            if ry room \<le> int j \<and> int j < ry room + rh room
            then map (\<lambda>(i, v). if rx room \<le> int i \<and> int i < rx room + rw room then FLOOR else v)
                     (enumerate 0 row)
            else row)
         (enumerate 0 t)"

text \<open>One sample of the rejection loop: \<open>w\<close>, \<open>h\<close>, \<open>x\<close>, \<open>y\<close> drawn in this order.\<close>

definition sample_room :: "'r rng_ops \<Rightarrow> int \<Rightarrow> int \<Rightarrow> 'r \<Rightarrow> error + (Rect \<times> 'r)" where
  "sample_room ops gw gh r =
     (case randint ops 5 10 r of
        Inl e \<Rightarrow> Inl e
      | Inr (w, r1) \<Rightarrow>
         (case randint ops 5 10 r1 of
            Inl e \<Rightarrow> Inl e
          | Inr (h, r2) \<Rightarrow>
             (case randint ops 1 (gw - w - 1) r2 of
                Inl e \<Rightarrow> Inl e
              | Inr (x, r3) \<Rightarrow>
                 (case randint ops 1 (gh - h - 1) r3 of
                    Inl e \<Rightarrow> Inl e
                  | Inr (y, r4) \<Rightarrow> Inr (\<lparr>rx = x, ry = y, rw = w, rh = h\<rparr>, r4)))))"

text \<open>
  The loop \<open>while len(rooms) < max_rooms and attempts < 200\<close> of \<open>_generate_rooms\<close>,
  with \<open>max_rooms = 12\<close>.
\<close>

function place_rooms ::
  "'r rng_ops \<Rightarrow> int \<Rightarrow> int \<Rightarrow> Rect list \<Rightarrow> int \<Rightarrow> Tile grid \<Rightarrow> 'r
     \<Rightarrow> error + (Rect list \<times> Tile grid \<times> 'r)" where
  "place_rooms ops gw gh rooms attempts t r =
     (if length rooms < 12 \<and> attempts < 200 then
        (case sample_room ops gw gh r of
           Inl e \<Rightarrow> Inl e
         | Inr (new_room, r') \<Rightarrow>
             if list_ex (intersect new_room) rooms
             then place_rooms ops gw gh rooms (attempts + 1) t r'
             else place_rooms ops gw gh (rooms @ [new_room]) attempts
                    (fill_room t new_room) r')
      else Inr (rooms, t, r))"
  by pat_completeness auto
termination
  by (relation "measure (\<lambda>(ops, gw, gh, rooms, attempts, t, r).
        (12 - length rooms) + nat (200 - attempts))") auto

definition carve_corridor ::
  "'r rng_ops \<Rightarrow> cell \<Rightarrow> cell \<Rightarrow> Tile grid \<Rightarrow> 'r \<Rightarrow> Tile grid \<times> 'r" where
  "carve_corridor ops a b t r =
     (case (a, b) of ((ax, ay), (bx, by)) \<Rightarrow>
        let (u, r') = rng_random ops r
        in if u < 1 / 2
           then (carve_v (carve_h t ax bx ay) ay by bx, r')
           else (carve_h (carve_v t ay by ax) ax bx by, r'))"

text \<open>The loop \<open>for i in range(1, len(rooms))\<close> over consecutive rooms.\<close>

fun carve_corridors ::
  "'r rng_ops \<Rightarrow> Rect list \<Rightarrow> Tile grid \<Rightarrow> 'r \<Rightarrow> Tile grid \<times> 'r" where
  "carve_corridors ops (prev # cur # rest) t r =
     (let (t', r') = carve_corridor ops (center prev) (center cur) t r
      in carve_corridors ops (cur # rest) t' r')"
| "carve_corridors ops rooms t r = (t, r)"

text \<open>Python's \<open>max(xs, key=f)\<close> on a non-empty list: the first element of greatest key.\<close>

definition max_by :: "('a \<Rightarrow> int) \<Rightarrow> 'a list \<Rightarrow> 'a" where
  "max_by f xs = fold (\<lambda>x best. if f x > f best then x else best) (tl xs) (hd xs)"

definition full_grid :: "int \<Rightarrow> int \<Rightarrow> 'a \<Rightarrow> 'a grid" where
  "full_grid gh gw v = replicate (nat gh) (replicate (nat gw) v)"

text \<open>
  \<open>_generate_rooms\<close> after the rejection loop: the corridors, the guard on an empty room
  list, the stairs, and the \<open>MapData\<close> it returns.
\<close>

definition rooms_result ::
  "'r rng_ops \<Rightarrow> 'r MapGenerator \<Rightarrow> Rect list \<Rightarrow> Tile grid \<Rightarrow> 'r
     \<Rightarrow> error + (MapData \<times> 'r MapGenerator)" where
  "rooms_result ops gen rooms t1 r1 =
     (let (t2, r2) = carve_corridors ops rooms t1 r1
      in if rooms = [] then Inl (RuntimeError ''Failed to generate rooms'')
         else
           (let s = center (hd rooms);
                sd = center (max_by (\<lambda>room. manhattan (center room) s) rooms);
                t3 = grid_set t2 (snd s) (fst s) STAIRS_UP;
                t4 = grid_set t3 (snd sd) (fst sd) STAIRS_DOWN
            in Inr (\<lparr>md_width = gen_width gen, md_height = gen_height gen, tiles = t4,
                     start = s, stairs_up = s, stairs_down = sd,
                     locked_doors = [], key_positions = [], door_keys = [],
                     hazards = [], trap_hints = []\<rparr>,
                    gen\<lparr>rng := r2, gen_start_position := Some s\<rparr>)))"

definition generate_rooms ::
  "'r rng_ops \<Rightarrow> 'r MapGenerator \<Rightarrow> error + (MapData \<times> 'r MapGenerator)" where
  "generate_rooms ops gen =
     (if gen_height gen < 0 \<or> gen_width gen < 0 then Inl ValueError
      else
        case place_rooms ops (gen_width gen) (gen_height gen) [] 0
               (full_grid (gen_height gen) (gen_width gen) WALL) (rng gen) of
          Inl e \<Rightarrow> Inl e
        | Inr (rooms, t1, r1) \<Rightarrow> rooms_result ops gen rooms t1 r1)"

text \<open>
  The cells visited by \<open>for y in range(y0, y1): for x in range(x0, x1)\<close>, in that order.
\<close>

definition cells_in :: "int \<Rightarrow> int \<Rightarrow> int \<Rightarrow> int \<Rightarrow> cell list" where
  "cells_in x0 x1 y0 y1 = concat (map (\<lambda>y. map (\<lambda>x. (x, y)) [x0..x1 - 1]) [y0..y1 - 1])"

definition count_neighbours :: "Tile grid \<Rightarrow> int \<Rightarrow> int \<Rightarrow> nat" where
  "count_neighbours t x y =
     length (filter (\<lambda>(nx, ny). \<not> (nx = x \<and> ny = y) \<and> grid_at t ny nx = WALL)
                    (cells_in (x - 1) (x + 2) (y - 1) (y + 2)))"

definition smooth :: "int \<Rightarrow> int \<Rightarrow> Tile grid \<Rightarrow> Tile grid" where
  "smooth gw gh t =
     fold (\<lambda>(x, y) new_tiles.
             let neighbours = count_neighbours t x y
             in if neighbours > 4 then grid_set new_tiles y x WALL
                else if neighbours < 4 then grid_set new_tiles y x FLOOR
                else new_tiles)
          (cells_in 1 (gw - 1) 1 (gh - 1)) t"

text \<open>
  \<open>fill_prob = 0.45\<close>: the double nearest to 0.45, as the rational it denotes.
\<close>

definition fill_prob :: rat where
  "fill_prob = 8106479329266893 / 18014398509481984"

text \<open>The initial noise of \<open>_generate_caves\<close>.\<close>

definition cave_noise :: "'r rng_ops \<Rightarrow> int \<Rightarrow> int \<Rightarrow> Tile grid \<Rightarrow> 'r \<Rightarrow> Tile grid \<times> 'r" where
  "cave_noise ops gw gh t r =
     fold (\<lambda>(x, y) (g, r0).
             let (u, r') = rng_random ops r0
             in (grid_set g y x (if u > fill_prob then FLOOR else WALL), r'))
          (cells_in 1 (gw - 1) 1 (gh - 1)) (t, r)"

text \<open>The loop \<open>for _ in range(5): tiles = self._smooth(tiles)\<close>, for any number of passes.\<close>

primrec smooth_passes :: "nat \<Rightarrow> int \<Rightarrow> int \<Rightarrow> Tile grid \<Rightarrow> Tile grid" where
  "smooth_passes 0 gw gh t = t"
| "smooth_passes (Suc n) gw gh t = smooth_passes n gw gh (smooth gw gh t)"

text \<open>The grid after the noise and the five smoothing passes.\<close>

definition cave_automaton :: "'r rng_ops \<Rightarrow> 'r MapGenerator \<Rightarrow> Tile grid \<times> 'r" where
  "cave_automaton ops gen =
     (let (t1, r1) = cave_noise ops (gen_width gen) (gen_height gen)
                       (full_grid (gen_height gen) (gen_width gen) WALL) (rng gen)
      in (smooth_passes 5 (gen_width gen) (gen_height gen) t1, r1))"

definition generate_caves ::
  "'r rng_ops \<Rightarrow> 'r MapGenerator \<Rightarrow> error + (MapData \<times> 'r MapGenerator)" where
  "generate_caves ops gen =
     (if gen_height gen < 0 \<or> gen_width gen < 0 then Inl ValueError
      else
        (let (t2, r1) = cave_automaton ops gen;
             walkable_positions = argwhere (\<lambda>v. v = FLOOR) t2
         in if walkable_positions = []
            then Inl (RuntimeError ''No floor tiles in cave generation'')
            else
              (case randrange ops (int (length walkable_positions)) r1 of
                 Inl e \<Rightarrow> Inl e
               | Inr (start_idx, r2) \<Rightarrow>
                  (let s = prod.swap (walkable_positions ! nat start_idx);
                       reach = flood_fill (map (map (\<lambda>v. v = FLOOR)) t2) s [];
                       t3 = fold (\<lambda>(x, y) g. if (x, y) \<notin> set reach then grid_set g y x WALL else g)
                              (cells_in 0 (gen_width gen) 0 (gen_height gen)) t2;
                       floors = argwhere (\<lambda>v. v = FLOOR) t3
                   in case randrange ops (int (length floors)) r2 of
                        Inl e \<Rightarrow> Inl e
                      | Inr (end_idx, r3) \<Rightarrow>
                         (let e = prod.swap (floors ! nat end_idx);
                              t4 = grid_set t3 (snd s) (fst s) STAIRS_UP;
                              t5 = grid_set t4 (snd e) (fst e) STAIRS_DOWN
                          in Inr (\<lparr>md_width = gen_width gen, md_height = gen_height gen,
                                   tiles = t5, start = s, stairs_up = s, stairs_down = e,
                                   locked_doors = [], key_positions = [],
                                   door_keys = [], hazards = [], trap_hints = []\<rparr>,
                                  gen\<lparr>rng := r3, gen_start_position := Some s\<rparr>))))))"

definition ring_positions :: "int \<Rightarrow> int \<Rightarrow> int \<Rightarrow> int \<Rightarrow> cell list" where
  "ring_positions gw gh x y =
     filter (\<lambda>(nx, ny). 0 \<le> nx \<and> nx < gw \<and> 0 \<le> ny \<and> ny < gh)
       (map (\<lambda>(dx, dy). (x + dx, y + dy))
          (filter (\<lambda>(dx, dy). \<not> (dx = 0 \<and> dy = 0))
             (concat (map (\<lambda>dx. map (\<lambda>dy. (dx, dy)) [-1, 0, 1]) [-1, 0, 1]))))"

text \<open>
  \<open>_trace_back\<close>: the walk from \<open>start\<close> toward \<open>goal\<close>, one step in \<open>x\<close> and one in \<open>y\<close>
  per iteration, the goal itself left out.
\<close>

definition toward :: "int \<Rightarrow> int \<Rightarrow> int" where
  "toward v g = (if v < g then v + 1 else if v > g then v - 1 else v)"

function trace_back :: "cell \<Rightarrow> cell \<Rightarrow> cell list" where
  "trace_back (x, y) (gx, gy) =
     (if (x, y) \<noteq> (gx, gy)
      then (x, y) # trace_back (toward x gx, toward y gy) (gx, gy)
      else [])"
  by pat_completeness auto
termination
  by (relation "measure (\<lambda>((x, y), (gx, gy)). nat (\<bar>gx - x\<bar> + \<bar>gy - y\<bar>))")
    (auto simp: toward_def)

text \<open>
  \<open>_ensure_connection\<close>: the search from the down stairs over the cells that are not
  walls, until a cell of \<open>reachable\<close> is taken from the queue; the walls on the walk from
  that cell toward the start are then turned into floor.
\<close>

definition carve_walls :: "cell list \<Rightarrow> Tile grid \<Rightarrow> Tile grid" where
  "carve_walls path t =
     fold (\<lambda>(px, py) g. if grid_at g py px = WALL then grid_set g py px FLOOR else g) path t"

definition ensure_push :: "MapData \<Rightarrow> cell list \<Rightarrow> int \<Rightarrow> int \<Rightarrow> cell list" where
  "ensure_push data visited x y =
     filter (\<lambda>(nx, ny). in_bounds data nx ny \<and> (nx, ny) \<notin> set visited
                        \<and> tile_at data nx ny \<noteq> WALL)
            (cardinal_neighbours x y)"

function ensure_loop :: "MapData \<Rightarrow> cell set \<Rightarrow> cell list \<Rightarrow> cell list \<Rightarrow> MapData" where
  "ensure_loop data reach [] visited = data"
| "ensure_loop data reach ((x, y) # queue) visited =
     (if (x, y) \<in> reach
      then data\<lparr>tiles := carve_walls (trace_back (x, y) (start data)) (tiles data)\<rparr>
      else ensure_loop data reach (queue @ ensure_push data ((x, y) # visited) x y)
             ((x, y) # visited))"
  by pat_completeness auto

text \<open>
  Termination of the search: a cell taken from the queue for the first time leaves the
  cells still to visit; a cell taken again is one visited entry less in the queue, and
  what it appends is unvisited.
\<close>

definition ensure_todo :: "MapData \<Rightarrow> cell list \<Rightarrow> cell list \<Rightarrow> cell set" where
  "ensure_todo data queue visited =
     (({0..<md_width data} \<times> {0..<md_height data}) \<union> set queue) - set visited"

lemma ensure_push_subset:
  "set (ensure_push data visited x y) \<subseteq> ({0..<md_width data} \<times> {0..<md_height data}) - set visited"
  by (auto simp: ensure_push_def in_bounds_def)

lemma ensure_push_unvisited:
  "filter (\<lambda>c. c \<in> set visited) (ensure_push data visited x y) = []"
  by (auto simp: ensure_push_def filter_empty_conv)

lemma ensure_todo_step:
  "ensure_todo data (queue @ ensure_push data (c # visited) x y) (c # visited)
     \<subseteq> ensure_todo data (c # queue) visited - {c}"
  using ensure_push_subset [of data "c # visited" x y]
  by (auto simp: ensure_todo_def)

lemma finite_ensure_todo: "finite (ensure_todo data queue visited)"
  by (simp add: ensure_todo_def)

termination ensure_loop
proof (relation "measures [\<lambda>(data, reach, queue, visited). card (ensure_todo data queue visited),
                           \<lambda>(data, reach, queue, visited). length (filter (\<lambda>c. c \<in> set visited) queue)]")
  show "wf (measures [\<lambda>(data, reach, queue, visited). card (ensure_todo data queue visited),
                           \<lambda>(data, reach, queue, visited). length (filter (\<lambda>c. c \<in> set visited) queue)])"
    by simp
next
  fix data :: MapData and reach :: "cell set" and x y :: int and queue visited :: "cell list"
  assume "(x, y) \<notin> reach"
  let ?c = "(x, y)"
  let ?q' = "queue @ ensure_push data (?c # visited) x y"
  have sub: "ensure_todo data ?q' (?c # visited) \<subseteq> ensure_todo data (?c # queue) visited - {?c}"
    by (rule ensure_todo_step)
  have le: "card (ensure_todo data ?q' (?c # visited)) \<le> card (ensure_todo data (?c # queue) visited)"
    using sub finite_ensure_todo [of data "?c # queue" visited]
    by (meson Diff_subset card_mono subset_trans)
  have step: "card (ensure_todo data ?q' (?c # visited)) < card (ensure_todo data (?c # queue) visited)
      \<or> length (filter (\<lambda>c. c \<in> set (?c # visited)) ?q')
          < length (filter (\<lambda>c. c \<in> set visited) (?c # queue))"
  proof (cases "?c \<in> set visited")
    case True
    then have "set (?c # visited) = set visited" by auto
    then have "filter (\<lambda>c. c \<in> set (?c # visited)) ?q' = filter (\<lambda>c. c \<in> set visited) queue"
      using ensure_push_unvisited [of "?c # visited" data x y] by simp
    then show ?thesis using True by simp
  next
    case False
    then have "?c \<in> ensure_todo data (?c # queue) visited"
      by (simp add: ensure_todo_def)
    then have "card (ensure_todo data (?c # queue) visited - {?c})
        < card (ensure_todo data (?c # queue) visited)"
      using finite_ensure_todo [of data "?c # queue" visited] by (meson card_Diff1_less)
    moreover have "card (ensure_todo data ?q' (?c # visited))
        \<le> card (ensure_todo data (?c # queue) visited - {?c})"
      using sub finite_ensure_todo [of data "?c # queue" visited] by (simp add: card_mono)
    ultimately show ?thesis by simp
  qed
  show "((data, reach, ?q', ?c # visited), data, reach, ?c # queue, visited)
       \<in> measures [\<lambda>(data, reach, queue, visited). card (ensure_todo data queue visited),
                           \<lambda>(data, reach, queue, visited). length (filter (\<lambda>c. c \<in> set visited) queue)]"
    using le step by auto
qed

definition ensure_connection :: "MapData \<Rightarrow> cell list \<Rightarrow> MapData" where
  "ensure_connection data reach = ensure_loop data (set reach) [stairs_down data] []"

text \<open>
  \<open>_pick_key_position\<close> turns the set of reachable cells into a list. The order in which
  Python iterates a set is fixed by the interpreter, not by the program; it is the
  parameter \<open>set_iter\<close>, applied to the members in insertion order.
\<close>

definition pick_key_position ::
  "'r rng_ops \<Rightarrow> (cell list \<Rightarrow> cell list) \<Rightarrow> 'r MapGenerator \<Rightarrow> cell list \<Rightarrow> 'r
     \<Rightarrow> cell option \<times> 'r" where
  "pick_key_position ops set_iter gen reach r =
     (let reachable_list = set_iter reach
      in if reachable_list = [] then (None, r)
         else
           (let (shuffled, r') = shuffle ops reachable_list r;
                avoid = (case gen_start_position gen of Some s \<Rightarrow> s | None \<Rightarrow> hd shuffled)
            in (case filter (\<lambda>pos. pos \<noteq> avoid) shuffled of
                  pos # _ \<Rightarrow> Some pos
                | [] \<Rightarrow> Some (hd shuffled), r')))"

text \<open>The bodies of the three scatter loops of \<open>_post_process\<close>.\<close>

definition hazard_step ::
  "'r rng_ops \<Rightarrow> cell \<Rightarrow> Tile grid \<times> cell list \<times> 'r \<Rightarrow> Tile grid \<times> cell list \<times> 'r" where
  "hazard_step ops c st =
     (case (c, st) of ((x, y), (t, hz, r)) \<Rightarrow>
        if grid_at t y x = FLOOR
        then (let (u, r') = rng_random ops r;
                  tile = (if u < 1 / 2 then ACID else LAVA)
              in (grid_set t y x tile, hz @ [(x, y)], r'))
        else (t, hz, r))"

definition trap_step ::
  "int \<Rightarrow> int \<Rightarrow> cell \<Rightarrow> Tile grid \<times> cell list \<Rightarrow> Tile grid \<times> cell list" where
  "trap_step gw gh c st =
     (case (c, st) of ((x, y), (t, hints)) \<Rightarrow>
        (grid_set t y x TRAP, hints @ ring_positions gw gh x y))"

definition door_step :: "cell \<Rightarrow> Tile grid \<times> cell list \<Rightarrow> Tile grid \<times> cell list" where
  "door_step c st =
     (case (c, st) of ((x, y), (t, doors)) \<Rightarrow>
        if grid_at t y x \<noteq> FLOOR then (t, doors)
        else
          (let neighbours = map (\<lambda>(nx, ny). grid_at t ny nx) (cardinal_neighbours x y)
           in if count_list neighbours WALL \<ge> 2 \<and> count_list neighbours FLOOR \<ge> 2
              then (grid_set t y x DOOR, doors @ [(x, y)])
              else (t, doors)))"

text \<open>The block \<open>if doors:\<close> of \<open>_post_process\<close>: one door is locked and a key placed.\<close>

definition lock_door ::
  "'r rng_ops \<Rightarrow> (cell list \<Rightarrow> cell list) \<Rightarrow> 'r MapGenerator \<Rightarrow> MapData \<Rightarrow> cell list \<Rightarrow> 'r
     \<Rightarrow> error + (MapData \<times> 'r)" where
  "lock_door ops set_iter gen data doors r =
     (if doors \<noteq> [] then
        (case randrange ops (int (length doors)) r of
           Inl e \<Rightarrow> Inl e
         | Inr (i, r') \<Rightarrow>
            (let locked = doors ! nat i;
                 data1 = data\<lparr>tiles := grid_set (tiles data) (snd locked) (fst locked) LOCKED_DOOR,
                              locked_doors := locked_doors data @ [locked]\<rparr>;
                 accessible_without_lock = reachable data1 (start data1) [locked];
                 (key_position, r'') =
                    pick_key_position ops set_iter gen accessible_without_lock r'
             in case key_position of
                  Some k \<Rightarrow>
                    Inr (data1\<lparr>key_positions := key_positions data1 @ [k],
                               door_keys := dict_set (door_keys data1) locked k\<rparr>, r'')
                | None \<Rightarrow> Inr (data1, r'')))
      else Inr (data, r))"

text \<open>The last two statements of \<open>_post_process\<close>, under the comment "Guarantee stairs reachable".\<close>

definition guarantee_stairs :: "MapData \<Rightarrow> MapData" where
  "guarantee_stairs data =
     (let reach = reachable data (start data) (locked_doors data)
      in if stairs_down data \<notin> set reach then ensure_connection data reach else data)"

definition post_process ::
  "'r rng_ops \<Rightarrow> (cell list \<Rightarrow> cell list) \<Rightarrow> 'r MapGenerator \<Rightarrow> MapData
     \<Rightarrow> error + (MapData \<times> 'r MapGenerator)" where
  "post_process ops set_iter gen data =
     (let (walkable_positions, r1) =
            shuffle ops (map prod.swap (argwhere (\<lambda>b. b) (walkable data))) (rng gen);
          hz = take (nat (max 3 (int (length walkable_positions) div 40))) walkable_positions;
          (t1, hazards1, r2) = fold (hazard_step ops) hz (tiles data, hazards data, r1);
          trap_candidates = filter (\<lambda>(x, y). grid_at t1 y x = FLOOR) walkable_positions;
          (t2, hints2) =
            fold (trap_step (gen_width gen) (gen_height gen))
              (take (length trap_candidates div 30 + 1) trap_candidates) (t1, trap_hints data);
          (t3, doors) =
            fold door_step (cells_in 1 (md_width data - 1) 1 (md_height data - 1)) (t2, []);
          data1 = data\<lparr>tiles := t3, hazards := hazards1, trap_hints := hints2\<rparr>
      in case lock_door ops set_iter gen data1 doors r2 of
           Inl e \<Rightarrow> Inl e
         | Inr (data2, r3) \<Rightarrow> Inr (guarantee_stairs data2, gen\<lparr>rng := r3\<rparr>))"

definition generate ::
  "'r rng_ops \<Rightarrow> (cell list \<Rightarrow> cell list) \<Rightarrow> 'r MapGenerator \<Rightarrow> string
     \<Rightarrow> error + (MapData \<times> 'r MapGenerator)" where
  "generate ops set_iter gen layout =
     (case (if layout = ''caves'' then generate_caves ops gen else generate_rooms ops gen) of
        Inl e \<Rightarrow> Inl e
      | Inr (base, gen') \<Rightarrow> post_process ops set_iter gen' base)"

definition MAP_WIDTH :: int where
  "MAP_WIDTH = 48"

definition MAP_HEIGHT :: int where
  "MAP_HEIGHT = 32"

definition generate_floor ::
  "'r rng_ops \<Rightarrow> (cell list \<Rightarrow> cell list) \<Rightarrow> int \<Rightarrow> int \<Rightarrow> string \<Rightarrow> error + MapData" where
  "generate_floor ops set_iter seed fl layout =
     (case generate ops set_iter
             \<lparr>gen_width = MAP_WIDTH, gen_height = MAP_HEIGHT, gen_floor = fl,
              rng = rng_seed ops (seed + fl * 97), gen_start_position = None\<rparr> layout of
        Inl e \<Rightarrow> Inl e
      | Inr (data, gen') \<Rightarrow> Inr data)"

text \<open>
  What a caller compares between two generated floors: the tile grid and the three
  positions. \<open>keyless\<close> forgets where the key was dropped.
\<close>

definition floor_plan :: "MapData \<Rightarrow> Tile grid \<times> cell \<times> cell \<times> cell" where
  "floor_plan d = (tiles d, start d, stairs_up d, stairs_down d)"

definition keyless :: "MapData \<Rightarrow> MapData" where
  "keyless d = d\<lparr>key_positions := [], door_keys := []\<rparr>"

section \<open>Concrete inputs\<close>

definition stats0 :: Stats where
  "stats0 = \<lparr>max_hp = 20, hp = 20, max_mp = 5, mp = 5, atk = 8, defense = 2, evasion = 5,
             speed = 90, xp = 0, level = 1, resistances = Map.empty\<rparr>"

definition burn3 :: StatusEffect where
  "burn3 = \<lparr>se_name = ''burn'', duration = 3, potency = 5, se_element = ''fire''\<rparr>"

definition burn6 :: StatusEffect where
  "burn6 = \<lparr>se_name = ''burn'', duration = 6, potency = 2, se_element = ''fire''\<rparr>"

definition slow2 :: StatusEffect where
  "slow2 = \<lparr>se_name = ''slow'', duration = 2, potency = 0, se_element = ''physical''\<rparr>"

definition potion :: "bool \<Rightarrow> int \<Rightarrow> Item" where
  "potion st q = \<lparr>name = ''Potion'', slot = None, stackable = st, quantity = q,
     identified = False, cursed = False, durability = None, power = 0,
     element = ''physical'', description = []\<rparr>"

definition sword :: Item where
  "sword = \<lparr>name = ''Iron Sword'', slot = Some ''weapon'', stackable = False, quantity = 1,
     identified = False, cursed = False, durability = None, power = 6,
     element = ''physical'', description = []\<rparr>"

text \<open>
  A scripted random source for concrete runs: the state is the number of draws made so
  far and draw \<open>i\<close> is read off the table \<open>f\<close>.
\<close>

definition script_ops :: "(int \<Rightarrow> int) \<Rightarrow> int rng_ops" where
  "script_ops f =
     \<lparr>rng_seed = (\<lambda>seed. 0),
      rng_random = (\<lambda>i. (of_int (f i mod 128) / 128, i + 1)),
      rng_randbelow = (\<lambda>n i. (f i mod n, i + 1))\<rparr>"



section \<open>Auxiliary facts about the component operations\<close>

lemma merge_into_None:
  "merge_into xs item = None \<longleftrightarrow> (\<forall>stored \<in> set xs. \<not> same_stack item stored)"
  by (induction xs) auto

lemma merge_into_Some:
  "\<exists>stored \<in> set xs. same_stack item stored \<Longrightarrow>
   merge_into xs item =
     Some (takeWhile (\<lambda>s. \<not> same_stack item s) xs @
           (hd (dropWhile (\<lambda>s. \<not> same_stack item s) xs))
              \<lparr>quantity := quantity (hd (dropWhile (\<lambda>s. \<not> same_stack item s) xs)) + quantity item\<rparr> #
           tl (dropWhile (\<lambda>s. \<not> same_stack item s) xs))"
  by (induction xs) auto

lemma merge_into_length: "merge_into xs item = Some ys \<Longrightarrow> length ys = length xs"
  by (induction xs arbitrary: ys) (auto split: if_splits)

lemma refresh_None: "refresh_existing xs e = None \<longleftrightarrow> se_name e \<notin> se_name ` set xs"
  by (induction xs) auto

lemma refresh_names: "refresh_existing xs e = Some ys \<Longrightarrow> map se_name ys = map se_name xs"
  by (induction xs arbitrary: ys) (auto split: if_splits)

lemma refresh_Some:
  "se_name e \<in> se_name ` set xs \<Longrightarrow>
   refresh_existing xs e =
     Some (takeWhile (\<lambda>s. se_name s \<noteq> se_name e) xs @
           (hd (dropWhile (\<lambda>s. se_name s \<noteq> se_name e) xs))
              \<lparr>duration := max (duration (hd (dropWhile (\<lambda>s. se_name s \<noteq> se_name e) xs))) (duration e),
               potency := max (potency (hd (dropWhile (\<lambda>s. se_name s \<noteq> se_name e) xs))) (potency e)\<rparr> #
           tl (dropWhile (\<lambda>s. se_name s \<noteq> se_name e) xs))"
  by (induction xs) auto

section \<open>Auxiliary facts about the map generator\<close>




lemma keyless_fields:
  "keyless d = keyless d' \<longleftrightarrow>
     md_width d = md_width d' \<and> md_height d = md_height d' \<and> tiles d = tiles d' \<and>
     start d = start d' \<and> stairs_up d = stairs_up d' \<and> stairs_down d = stairs_down d' \<and>
     locked_doors d = locked_doors d' \<and> hazards d = hazards d' \<and> trap_hints d = trap_hints d'"
  by (cases d; cases d') (auto simp: keyless_def)

lemma ensure_push_keyless:
  "keyless d = keyless d' \<Longrightarrow> ensure_push d v x y = ensure_push d' v x y"
  by (simp add: keyless_fields ensure_push_def in_bounds_def tile_at_def)

lemma ensure_loop_keyless:
  "keyless d = keyless d' \<Longrightarrow>
   keyless (ensure_loop d R q v) = keyless (ensure_loop d' R q v)"
proof (induction d R q v rule: ensure_loop.induct)
  case (1 data reach visited)
  then show ?case by simp
next
  case (2 data reach x y queue visited)
  show ?case
  proof (cases "(x, y) \<in> reach")
    case True
    then show ?thesis
      using "2.prems" by (simp add: keyless_fields)
  next
    case False
    have "ensure_push data ((x, y) # visited) x y = ensure_push d' ((x, y) # visited) x y"
      using "2.prems" by (rule ensure_push_keyless)
    then show ?thesis
      using False "2.IH" [OF False "2.prems"] by simp
  qed
qed

lemma guarantee_stairs_keyless:
  "keyless d = keyless d' \<Longrightarrow> keyless (guarantee_stairs d) = keyless (guarantee_stairs d')"
proof -
  assume k: "keyless d = keyless d'"
  then have r: "reachable d (start d) (locked_doors d) = reachable d' (start d') (locked_doors d')"
    by (simp add: keyless_fields reachable_def walkable_def)
  have s: "stairs_down d = stairs_down d'"
    using k by (simp add: keyless_fields)
  show ?thesis
    using k r s ensure_loop_keyless [OF k]
    by (simp add: guarantee_stairs_def ensure_connection_def Let_def)
qed

lemma lock_door_keyless:
  "map_sum id (\<lambda>p. keyless (fst p)) (lock_door ops s1 gen data doors r)
     = map_sum id (\<lambda>p. keyless (fst p)) (lock_door ops s2 gen data doors r)"
  by (auto simp: lock_door_def Let_def keyless_fields split: sum.splits prod.splits option.splits)

lemma post_process_shape:
  "\<exists>D DO R. \<forall>s. post_process ops s gen data =
     (case lock_door ops s gen D DO R of
        Inl e \<Rightarrow> Inl e
      | Inr (data2, r3) \<Rightarrow> Inr (guarantee_stairs data2, gen\<lparr>rng := r3\<rparr>))"
  unfolding post_process_def Let_def split_def by blast

lemma post_process_keyless:
  "map_sum id (\<lambda>p. keyless (fst p)) (post_process ops s1 gen data)
     = map_sum id (\<lambda>p. keyless (fst p)) (post_process ops s2 gen data)"
proof -
  obtain D DO R where "\<forall>s. post_process ops s gen data =
     (case lock_door ops s gen D DO R of
        Inl e \<Rightarrow> Inl e
      | Inr (data2, r3) \<Rightarrow> Inr (guarantee_stairs data2, gen\<lparr>rng := r3\<rparr>))"
    using post_process_shape [of ops gen data] by (elim exE)
  then have shape: "post_process ops s gen data =
     (case lock_door ops s gen D DO R of
        Inl e \<Rightarrow> Inl e
      | Inr (data2, r3) \<Rightarrow> Inr (guarantee_stairs data2, gen\<lparr>rng := r3\<rparr>))" for s
    by (rule spec)
  have l: "map_sum id (\<lambda>p. keyless (fst p)) (lock_door ops s1 gen D DO R)
     = map_sum id (\<lambda>p. keyless (fst p)) (lock_door ops s2 gen D DO R)"
    by (rule lock_door_keyless)
  show ?thesis
  proof (cases "lock_door ops s1 gen D DO R")
    case (Inl e)
    with l have "lock_door ops s2 gen D DO R = Inl e"
      by (cases "lock_door ops s2 gen D DO R") auto
    with Inl show ?thesis by (simp add: shape)
  next
    case (Inr p1)
    with l obtain p2 where p2: "lock_door ops s2 gen D DO R = Inr p2"
      and k: "keyless (fst p1) = keyless (fst p2)"
      by (cases "lock_door ops s2 gen D DO R") auto
    show ?thesis
      using Inr p2 guarantee_stairs_keyless [OF k]
      by (simp add: shape split_def)
  qed
qed

lemma generate_keyless:
  "map_sum id (\<lambda>p. keyless (fst p)) (generate ops s1 gen layout)
     = map_sum id (\<lambda>p. keyless (fst p)) (generate ops s2 gen layout)"
  by (auto simp: generate_def post_process_keyless split: sum.splits)

section \<open>Leveling\<close>

text \<open>
  Claim C5: one call of \<open>gain_xp\<close> performs at most one level-up. If \<open>xp + reward\<close>
  reaches the threshold \<open>10 + level * 5\<close>, the level grows by exactly 1, max HP, max MP,
  attack and defense grow by 4, 2, 1 and 1, HP and MP are set to the new maxima, the
  remaining XP is \<open>xp + reward - threshold\<close> and the call returns true; otherwise only
  \<open>xp\<close> changes and the call returns false.
\<close>

theorem gain_xp_single_level_up:
  "(xp s + reward \<ge> 10 + level s * 5 \<longrightarrow>
      gain_xp s reward =
        (True, s\<lparr>level := level s + 1, max_hp := max_hp s + 4, max_mp := max_mp s + 2,
                 atk := atk s + 1, defense := defense s + 1,
                 hp := max_hp s + 4, mp := max_mp s + 2,
                 xp := xp s + reward - (10 + level s * 5)\<rparr>)) \<and>
   (xp s + reward < 10 + level s * 5 \<longrightarrow>
      gain_xp s reward = (False, s\<lparr>xp := xp s + reward\<rparr>))"
  by (simp add: gain_xp_def Let_def)

theorem gain_xp_single_level_up_witness:
  "xp stats0 + 50 \<ge> 10 + level stats0 * 5 \<and>
   fst (gain_xp stats0 50) \<and> level (snd (gain_xp stats0 50)) = 2 \<and>
   xp (snd (gain_xp stats0 50)) = 35 \<and> hp (snd (gain_xp stats0 50)) = 24 \<and>
   xp stats0 + 3 < 10 + level stats0 * 5 \<and>
   \<not> fst (gain_xp stats0 3) \<and> level (snd (gain_xp stats0 3)) = 1 \<and>
   xp (snd (gain_xp stats0 3)) = 3"
  using gain_xp_single_level_up [of stats0 50] gain_xp_single_level_up [of stats0 3]
  by (simp add: stats0_def)

section \<open>Status merging\<close>

text \<open>
  Claim C6: adding an effect whose name already has an entry creates no second entry:
  the list of names is unchanged and the first entry of that name gets the maximum of the
  old and new duration and of the old and new potency. An effect with a new name is
  appended. Hence a tracker with at most one entry per name stays so after every add.
\<close>

theorem tracker_add_one_entry_per_name:
  "(se_name e \<in> se_name ` set (statuses t) \<longrightarrow>
      map se_name (statuses (tracker_add t e)) = map se_name (statuses t) \<and>
      statuses (tracker_add t e) =
        takeWhile (\<lambda>s. se_name s \<noteq> se_name e) (statuses t) @
        (hd (dropWhile (\<lambda>s. se_name s \<noteq> se_name e) (statuses t)))
           \<lparr>duration := max (duration (hd (dropWhile (\<lambda>s. se_name s \<noteq> se_name e) (statuses t)))) (duration e),
            potency := max (potency (hd (dropWhile (\<lambda>s. se_name s \<noteq> se_name e) (statuses t)))) (potency e)\<rparr> #
        tl (dropWhile (\<lambda>s. se_name s \<noteq> se_name e) (statuses t))) \<and>
   (se_name e \<notin> se_name ` set (statuses t) \<longrightarrow>
      statuses (tracker_add t e) = statuses t @ [e]) \<and>
   (distinct (map se_name (statuses t)) \<longrightarrow>
      distinct (map se_name (statuses (tracker_add t e))))"
proof (cases "se_name e \<in> se_name ` set (statuses t)")
  case True
  from refresh_Some [OF True] obtain ys where ys: "refresh_existing (statuses t) e = Some ys"
    by blast
  have "map se_name ys = map se_name (statuses t)"
    using ys by (rule refresh_names)
  then show ?thesis
    using True ys refresh_Some [OF True] by (simp add: tracker_add_def)
next
  case False
  then have "refresh_existing (statuses t) e = None"
    by (simp add: refresh_None)
  then show ?thesis
    using False by (simp add: tracker_add_def)
qed

theorem tracker_add_one_entry_per_name_witness:
  "se_name burn6 \<in> se_name ` set (statuses \<lparr>statuses = [slow2, burn3]\<rparr>) \<and>
   distinct (map se_name (statuses \<lparr>statuses = [slow2, burn3]\<rparr>)) \<and>
   statuses (tracker_add \<lparr>statuses = [slow2, burn3]\<rparr> burn6) =
     [slow2, \<lparr>se_name = ''burn'', duration = 6, potency = 5, se_element = ''fire''\<rparr>] \<and>
   distinct (map se_name (statuses (tracker_add \<lparr>statuses = [slow2, burn3]\<rparr> burn6))) \<and>
   se_name burn6 \<notin> se_name ` set (statuses \<lparr>statuses = [slow2]\<rparr>) \<and>
   statuses (tracker_add \<lparr>statuses = [slow2]\<rparr> burn6) = [slow2, burn6]"
  using tracker_add_one_entry_per_name [of burn6 "\<lparr>statuses = [slow2, burn3]\<rparr>"]
    tracker_add_one_entry_per_name [of burn6 "\<lparr>statuses = [slow2]\<rparr>"]
  by (simp add: burn3_def burn6_def slow2_def)

section \<open>Inventory stacking and capacity\<close>

text \<open>
  Claim C9, as stated, lets \<open>Inventory.add\<close> merge only when the incoming item and the
  stored entry are both stackable. The method tests the incoming item's flag alone: a
  stackable potion is merged into a stored potion that is not stackable, in a full
  inventory where the claim predicts a refused append.
\<close>

theorem inv_add_stored_flag_counterexample:
  "\<not> (stackable (potion True 1) \<and>
        (\<exists>stored \<in> set (items \<lparr>width = 1, height = 1, items = [potion False 1]\<rparr>).
            stackable stored \<and> same_stack (potion True 1) stored)) \<and>
   \<not> int (length (items \<lparr>width = 1, height = 1, items = [potion False 1]\<rparr>))
        < capacity \<lparr>width = 1, height = 1, items = [potion False 1]\<rparr> \<and>
   inv_add \<lparr>width = 1, height = 1, items = [potion False 1]\<rparr> (potion True 1) =
     (True, \<lparr>width = 1, height = 1, items = [potion False 2]\<rparr>)"
  by (simp add: inv_add_def potion_def capacity_def)

text \<open>
  Claim C9, amended: \<open>Inventory.add\<close> merges (adds the incoming quantity to the first
  stored entry of the same name and identified flag, and returns true) exactly when the
  incoming item is stackable and such an entry exists, whatever the stored entry's own
  stackable flag; otherwise it appends the item and returns true if and only if the entry
  count is below \<open>width * height\<close>, and when it returns false the inventory is unchanged.
\<close>

theorem inv_add_merge_or_append:
  "(stackable item \<and> (\<exists>stored \<in> set (items iv). same_stack item stored) \<longrightarrow>
      inv_add iv item =
        (True, iv\<lparr>items :=
           takeWhile (\<lambda>s. \<not> same_stack item s) (items iv) @
           (hd (dropWhile (\<lambda>s. \<not> same_stack item s) (items iv)))
              \<lparr>quantity := quantity (hd (dropWhile (\<lambda>s. \<not> same_stack item s) (items iv)))
                            + quantity item\<rparr> #
           tl (dropWhile (\<lambda>s. \<not> same_stack item s) (items iv))\<rparr>)) \<and>
   (\<not> (stackable item \<and> (\<exists>stored \<in> set (items iv). same_stack item stored)) \<longrightarrow>
      inv_add iv item =
        (if int (length (items iv)) < width iv * height iv
         then (True, iv\<lparr>items := items iv @ [item]\<rparr>) else (False, iv)))"
proof (cases "stackable item \<and> (\<exists>stored \<in> set (items iv). same_stack item stored)")
  case True
  then show ?thesis
    using merge_into_Some [of "items iv" item] by (simp add: inv_add_def)
next
  case False
  then have "(if stackable item then merge_into (items iv) item else None) = None"
    by (auto simp: merge_into_None)
  then show ?thesis
    using False by (auto simp: inv_add_def capacity_def)
qed

theorem inv_add_merge_or_append_witness:
  "stackable (potion True 3) \<and>
   (\<exists>stored \<in> set (items \<lparr>width = 1, height = 2, items = [sword, potion True 2]\<rparr>).
       same_stack (potion True 3) stored) \<and>
   inv_add \<lparr>width = 1, height = 2, items = [sword, potion True 2]\<rparr> (potion True 3) =
     (True, \<lparr>width = 1, height = 2, items = [sword, potion True 5]\<rparr>) \<and>
   \<not> (stackable sword \<and>
       (\<exists>stored \<in> set (items \<lparr>width = 1, height = 2, items = [sword]\<rparr>).
          same_stack sword stored)) \<and>
   inv_add \<lparr>width = 1, height = 2, items = [sword]\<rparr> sword =
     (True, \<lparr>width = 1, height = 2, items = [sword, sword]\<rparr>) \<and>
   \<not> (stackable sword \<and>
       (\<exists>stored \<in> set (items \<lparr>width = 1, height = 1, items = [sword]\<rparr>).
          same_stack sword stored)) \<and>
   inv_add \<lparr>width = 1, height = 1, items = [sword]\<rparr> sword =
     (False, \<lparr>width = 1, height = 1, items = [sword]\<rparr>)"
  using inv_add_merge_or_append [of "potion True 3" "\<lparr>width = 1, height = 2, items = [sword, potion True 2]\<rparr>"]
    inv_add_merge_or_append [of sword "\<lparr>width = 1, height = 2, items = [sword]\<rparr>"]
    inv_add_merge_or_append [of sword "\<lparr>width = 1, height = 1, items = [sword]\<rparr>"]
  by (simp add: potion_def sword_def)

text \<open>
  Claim C10: merging bypasses the capacity check. In an inventory whose entry count
  equals \<open>width * height\<close> and which holds an entry with the name and identified flag of
  an incoming stackable item, \<open>Inventory.add\<close> returns true, adds the incoming quantity to
  the first such entry, and the entry count stays at capacity. No add changes the
  dimensions, and no add takes an entry count that is within capacity beyond it.
\<close>

theorem inv_add_merge_at_capacity:
  "(int (length (items iv)) = width iv * height iv \<and> stackable item \<and>
    stored \<in> set (items iv) \<and> same_stack item stored \<longrightarrow>
      fst (inv_add iv item) \<and>
      items (snd (inv_add iv item)) =
        takeWhile (\<lambda>s. \<not> same_stack item s) (items iv) @
        (hd (dropWhile (\<lambda>s. \<not> same_stack item s) (items iv)))
           \<lparr>quantity := quantity (hd (dropWhile (\<lambda>s. \<not> same_stack item s) (items iv)))
                         + quantity item\<rparr> #
        tl (dropWhile (\<lambda>s. \<not> same_stack item s) (items iv)) \<and>
      int (length (items (snd (inv_add iv item)))) = width iv * height iv) \<and>
   width (snd (inv_add iv item)) = width iv \<and> height (snd (inv_add iv item)) = height iv \<and>
   (int (length (items iv)) \<le> width iv * height iv \<longrightarrow>
      int (length (items (snd (inv_add iv item)))) \<le> width iv * height iv)"
proof -
  have dims: "width (snd (inv_add iv item)) = width iv \<and> height (snd (inv_add iv item)) = height iv"
    by (simp add: inv_add_def split: option.splits)
  have bound: "int (length (items (snd (inv_add iv item)))) \<le> width iv * height iv"
    if "int (length (items iv)) \<le> width iv * height iv"
    using that
    by (auto simp: inv_add_def capacity_def split: option.splits if_splits
        dest: merge_into_length)
  have full: "fst (inv_add iv item) \<and>
      items (snd (inv_add iv item)) =
        takeWhile (\<lambda>s. \<not> same_stack item s) (items iv) @
        (hd (dropWhile (\<lambda>s. \<not> same_stack item s) (items iv)))
           \<lparr>quantity := quantity (hd (dropWhile (\<lambda>s. \<not> same_stack item s) (items iv)))
                         + quantity item\<rparr> #
        tl (dropWhile (\<lambda>s. \<not> same_stack item s) (items iv)) \<and>
      int (length (items (snd (inv_add iv item)))) = width iv * height iv"
    if h: "int (length (items iv)) = width iv * height iv" "stackable item"
      "stored \<in> set (items iv)" "same_stack item stored"
  proof -
    have ex: "\<exists>stored \<in> set (items iv). same_stack item stored"
      using h by blast
    obtain ys where ys: "merge_into (items iv) item = Some ys"
      using merge_into_Some [OF ex] by blast
    have "length ys = length (items iv)"
      using ys by (rule merge_into_length)
    then show ?thesis
      using h ys merge_into_Some [OF ex] by (simp add: inv_add_def)
  qed
  show ?thesis
    using dims bound full by blast
qed

theorem inv_add_merge_at_capacity_witness:
  "int (length (items \<lparr>width = 1, height = 2, items = [sword, potion True 2]\<rparr>)) =
     width \<lparr>width = 1, height = 2, items = [sword, potion True 2]\<rparr> *
     height \<lparr>width = 1, height = 2, items = [sword, potion True 2]\<rparr> \<and>
   stackable (potion True 3) \<and>
   potion True 2 \<in> set (items \<lparr>width = 1, height = 2, items = [sword, potion True 2]\<rparr>) \<and>
   same_stack (potion True 3) (potion True 2) \<and>
   fst (inv_add \<lparr>width = 1, height = 2, items = [sword, potion True 2]\<rparr> (potion True 3)) \<and>
   items (snd (inv_add \<lparr>width = 1, height = 2, items = [sword, potion True 2]\<rparr> (potion True 3))) =
     [sword, potion True 5] \<and>
   int (length (items (snd (inv_add \<lparr>width = 1, height = 2, items = [sword, potion True 2]\<rparr> (potion True 3))))) = 2"
  using inv_add_merge_at_capacity [of "\<lparr>width = 1, height = 2, items = [sword, potion True 2]\<rparr>"
      "potion True 3" "potion True 2"]
  by (simp add: potion_def sword_def)

section \<open>Determinism of floor generation\<close>

text \<open>
  Claim C1: two calls of \<open>generate_floor\<close> with the same seed, floor index and layout
  mode give the same result: the same error, or maps with the same tile grid and the same
  start, stairs-up and stairs-down positions. The generator reads nothing but its fresh
  random source, seeded from \<open>seed + floor * 97\<close>; the one choice the interpreter makes
  for it, the order in which a set is iterated, may differ between the two calls
  (\<open>set_iter1\<close>, \<open>set_iter2\<close>) and only moves the key.
\<close>

theorem generate_floor_deterministic:
  "map_sum id floor_plan (generate_floor ops set_iter1 seed fl layout)
     = map_sum id floor_plan (generate_floor ops set_iter2 seed fl layout)"
proof -
  let ?gen = "\<lparr>gen_width = MAP_WIDTH, gen_height = MAP_HEIGHT, gen_floor = fl,
              rng = rng_seed ops (seed + fl * 97), gen_start_position = None\<rparr>"
  have g: "map_sum id (\<lambda>p. keyless (fst p)) (generate ops set_iter1 ?gen layout)
     = map_sum id (\<lambda>p. keyless (fst p)) (generate ops set_iter2 ?gen layout)"
    by (rule generate_keyless)
  show ?thesis
  proof (cases "generate ops set_iter1 ?gen layout")
    case (Inl e)
    with g have "generate ops set_iter2 ?gen layout = Inl e"
      by (cases "generate ops set_iter2 ?gen layout") auto
    with Inl show ?thesis by (simp add: generate_floor_def)
  next
    case (Inr p1)
    with g obtain p2 where p2: "generate ops set_iter2 ?gen layout = Inr p2"
      and k: "keyless (fst p1) = keyless (fst p2)"
      by (cases "generate ops set_iter2 ?gen layout") auto
    from k have "floor_plan (fst p1) = floor_plan (fst p2)"
      by (simp add: keyless_fields floor_plan_def)
    then show ?thesis
      using Inr p2 by (simp add: generate_floor_def split_def)
  qed
qed

theorem generate_floor_deterministic_witness:
  "map_sum id floor_plan (generate_floor (script_ops (\<lambda>i. 0)) (\<lambda>xs. xs) 101 2 ''rooms'')
     = map_sum id floor_plan (generate_floor (script_ops (\<lambda>i. 0)) rev 101 2 ''rooms'')"
  by (rule generate_floor_deterministic)

section \<open>Generation failures\<close>



end
